theory Spec2Isabelle
  imports Complex_Main "HOL-Library.Sublist"
begin

section \<open>Values exchanged with the controller\<close>

text \<open>
  \<^verbatim>\<open>response.json()\<close> yields Python values built from \<^verbatim>\<open>None\<close>, booleans, integers,
  floats, strings, lists and dictionaries. A dictionary is the list of its items in
  insertion order, with distinct keys. Floats are rationals and their arithmetic is exact;
  where a float is truncated or compared, the text at that place says why binary64
  rounding does not change the outcome for the values concerned.
\<close>

datatype json =
    JNull
  | JBool bool
  | JInt int
  | JFloat rat
  | JStr string
  | JArr "json list"
  | JObj "(string \<times> json) list"

text \<open>
  The exceptions that the code raises itself or lets pass. \<^verbatim>\<open>json.JSONDecodeError\<close> is a
  subclass of \<^verbatim>\<open>ValueError\<close>; \<open>RequestError\<close> stands for the transport failures of httpx
  (connection refused, timeout).
\<close>

datatype py_error =
    ValueError string
  | JSONDecodeError
  | RuntimeError string
  | HTTPStatusError nat
  | RequestError
  | AttributeError
  | KeyError string
  | TypeError

fun is_ValueError :: "py_error \<Rightarrow> bool" where
  "is_ValueError (ValueError m) = True"
| "is_ValueError JSONDecodeError = True"
| "is_ValueError e = False"

text \<open>Python's truth value of an object, as \<^verbatim>\<open>not x\<close> and \<^verbatim>\<open>x and y\<close> consult it.\<close>

fun truthy :: "json \<Rightarrow> bool" where
  "truthy JNull = False"
| "truthy (JBool b) = b"
| "truthy (JInt n) = (n \<noteq> 0)"
| "truthy (JFloat r) = (r \<noteq> 0)"
| "truthy (JStr s) = (s \<noteq> [])"
| "truthy (JArr xs) = (xs \<noteq> [])"
| "truthy (JObj kvs) = (kvs \<noteq> [])"

text \<open>\<^verbatim>\<open>d.get(key, default)\<close>: only a dictionary has the method.\<close>

fun py_get :: "json \<Rightarrow> string \<Rightarrow> json \<Rightarrow> py_error + json" where
  "py_get (JObj kvs) k dflt = (case map_of kvs k of None \<Rightarrow> Inr dflt | Some v \<Rightarrow> Inr v)"
| "py_get v k dflt = Inl AttributeError"

section \<open>The HTTP client\<close>

text \<open>
  The httpx client is outside the repository. Here it is a function from the request it is
  handed to either the exception it raises or the response it returns; a response carries
  its status code and what \<^verbatim>\<open>response.json()\<close> gives (a decoding error or the value).
  \<^verbatim>\<open>raise_for_status()\<close> raises unless the status is 2xx.
\<close>

record request =
  url :: string
  http_method :: string
  headers :: "(string \<times> json) list"
  body :: "json option"

datatype response = Response (status_code: nat) (json_result: "py_error + json")

type_synonym http_client = "request \<Rightarrow> py_error + response"

definition raise_for_status :: "response \<Rightarrow> py_error + unit" where
  "raise_for_status r =
     (if 200 \<le> status_code r \<and> status_code r < 300 then Inr ()
      else Inl (HTTPStatusError (status_code r)))"

section \<open>Session management\<close>

definition SESSION_TIMEOUT :: rat where
  "SESSION_TIMEOUT = 540"

text \<open>
  \<^verbatim>\<open>class CrestronSession\<close>: the four attributes, all \<^verbatim>\<open>None\<close> at first. The credential is
  whatever the login response holds under \<^verbatim>\<open>"AuthKey"\<close>, so it is a JSON value (\<open>JNull\<close>
  for \<^verbatim>\<open>None\<close>); the issuance time is a reading of the event loop's clock.
\<close>

record session =
  host :: "string option"
  auth_key :: json
  session_start :: "rat option"
  client :: "http_client option"

definition new_session :: session where
  "new_session = \<lparr>host = None, auth_key = JNull, session_start = None, client = None\<rparr>"

text \<open>\<^verbatim>\<open>not self.session_start\<close>: true for \<^verbatim>\<open>None\<close> and for the float \<^verbatim>\<open>0.0\<close>.\<close>

fun truthy_time :: "rat option \<Rightarrow> bool" where
  "truthy_time None = False"
| "truthy_time (Some t) = (t \<noteq> 0)"

text \<open>
  \<^verbatim>\<open>CrestronSession.is_valid\<close>, with the clock reading \<open>now\<close> of
  \<^verbatim>\<open>asyncio.get_event_loop().time()\<close> as an argument. The elapsed time is the difference
  of the two readings, taken exactly. The program's binary64 difference is the double
  nearest to it, so the two lie on the same side of 540 unless the exact difference is
  within one rounding step, about 1e-13 seconds, below 540.
\<close>

definition is_valid :: "session \<Rightarrow> rat \<Rightarrow> bool" where
  "is_valid s now =
     (if \<not> truthy (auth_key s) \<or> \<not> truthy_time (session_start s) then False
      else (case session_start s of
              None \<Rightarrow> False
            | Some t \<Rightarrow> now - t < SESSION_TIMEOUT))"

definition clear :: "session \<Rightarrow> session" where
  "clear s = s\<lparr>auth_key := JNull, session_start := None\<rparr>"

section \<open>Helper functions\<close>

text \<open>
  \<^verbatim>\<open>authenticate(host, auth_token)\<close>. The result is the returned value or the exception,
  the session afterwards, and the requests handed to the client. \<open>now\<close> is the clock
  reading taken when the session is updated.
\<close>

definition login_request :: "string \<Rightarrow> string \<Rightarrow> request" where
  "login_request h tok =
     \<lparr>url = ''https://'' @ h @ ''/cws/api/login'', http_method = ''GET'',
      headers = [(''Crestron-RestAPI-AuthToken'', JStr tok)], body = None\<rparr>"

definition authenticate ::
  "string \<Rightarrow> string \<Rightarrow> rat \<Rightarrow> session \<Rightarrow> (py_error + json) \<times> session \<times> request list" where
  "authenticate h tok now s =
     (case client s of
        None \<Rightarrow> (Inl (RuntimeError ''HTTP client not initialized''), s, [])
      | Some c \<Rightarrow>
          (case c (login_request h tok) of
             Inl e \<Rightarrow> (Inl e, s, [login_request h tok])
           | Inr r \<Rightarrow>
               (case raise_for_status r of
                  Inl e \<Rightarrow> (Inl e, s, [login_request h tok])
                | Inr u \<Rightarrow>
                    (case json_result r of
                       Inl e \<Rightarrow> (Inl e, s, [login_request h tok])
                     | Inr data \<Rightarrow>
                         (case py_get data ''AuthKey'' JNull of
                            Inl e \<Rightarrow> (Inl e, s\<lparr>host := Some h\<rparr>, [login_request h tok])
                          | Inr k \<Rightarrow>
                              (Inr data,
                               s\<lparr>host := Some h, auth_key := k, session_start := Some now\<rparr>,
                               [login_request h tok]))))))"

text \<open>
  \<^verbatim>\<open>api_request(endpoint, method, body, require_auth)\<close>. It reads the session and does not
  change it. An f-string renders a host of \<^verbatim>\<open>None\<close> as the text \<^verbatim>\<open>None\<close>.
\<close>

definition NOT_AUTHENTICATED :: py_error where
  "NOT_AUTHENTICATED =
     ValueError (''Not authenticated or session expired. Please authenticate first using ''
       @ ''crestron_authenticate tool.'')"

definition host_text :: "string option \<Rightarrow> string" where
  "host_text h = (case h of None \<Rightarrow> ''None'' | Some x \<Rightarrow> x)"

definition send :: "http_client \<Rightarrow> request \<Rightarrow> (py_error + json) \<times> request list" where
  "send c req =
     (case c req of
        Inl e \<Rightarrow> (Inl e, [req])
      | Inr r \<Rightarrow>
          (case raise_for_status r of
             Inl e \<Rightarrow> (Inl e, [req])
           | Inr u \<Rightarrow> (json_result r, [req])))"

definition api_request ::
  "string \<Rightarrow> string \<Rightarrow> json option \<Rightarrow> bool \<Rightarrow> rat \<Rightarrow> session
     \<Rightarrow> (py_error + json) \<times> request list" where
  "api_request endpoint meth bdy require_auth now s =
     (if require_auth \<and> \<not> is_valid s now then (Inl NOT_AUTHENTICATED, [])
      else
        (case client s of
           None \<Rightarrow> (Inl (RuntimeError ''HTTP client not initialized''), [])
         | Some c \<Rightarrow>
             (let u = ''https://'' @ host_text (host s) @ ''/cws/api'' @ endpoint;
                  hs = (if require_auth \<and> truthy (auth_key s)
                        then [(''Crestron-RestAPI-AuthKey'', auth_key s)] else [])
              in if meth = ''GET''
                 then send c \<lparr>url = u, http_method = ''GET'', headers = hs, body = None\<rparr>
                 else if meth = ''POST''
                 then send c \<lparr>url = u, http_method = ''POST'',
                              headers = hs @ [(''Content-Type'', JStr ''application/json'')],
                              body = bdy\<rparr>
                 else (Inl (ValueError (''Unsupported HTTP method: '' @ meth)), []))))"

section \<open>Tool replies\<close>

text \<open>
  Every tool returns \<^verbatim>\<open>json.dumps(response)\<close> of a dictionary it has built. The model
  returns that dictionary. An entry is a JSON value or \<^verbatim>\<open>str(e)\<close> of a caught exception,
  whose wording belongs to the library that raised it.
\<close>

datatype entry = Val json | StrOf py_error

type_synonym reply = "(string \<times> entry) list"

section \<open>Authentication tool\<close>

text \<open>
  \<^verbatim>\<open>crestron_authenticate(params)\<close>: the reply, the session afterwards and the requests
  made.
\<close>

definition crestron_authenticate ::
  "string \<Rightarrow> string \<Rightarrow> rat \<Rightarrow> session \<Rightarrow> reply \<times> session \<times> request list" where
  "crestron_authenticate h tok now s =
     (case authenticate h tok now s of
        (Inr result, s', calls) \<Rightarrow>
          (case py_get result ''version'' (JStr ''unknown'') of
             Inr v \<Rightarrow>
               ([(''status'', Val (JStr ''success'')),
                 (''host'', Val (JStr h)),
                 (''authenticated'', Val (JBool True)),
                 (''session_valid_for'', Val (JStr ''10 minutes'')),
                 (''api_version'', Val v),
                 (''message'', Val (JStr
                    ''Successfully authenticated with Crestron Home. You can now use other tools.''))],
                s', calls)
           | Inl e \<Rightarrow>
               ([(''status'', Val (JStr ''error'')),
                 (''error'', StrOf e),
                 (''help'', Val (JStr
                    ''Check network connectivity and Crestron Home system status''))],
                s', calls))
      | (Inl e, s', calls) \<Rightarrow>
          (case e of
             HTTPStatusError code \<Rightarrow>
               ([(''status'', Val (JStr ''error'')),
                 (''error'', Val (JStr ''Authentication failed'')),
                 (''details'', StrOf e),
                 (''help'', Val (JStr
                    (''Verify that: (1) The host is correct and reachable, ''
                     @ ''(2) The auth token is valid and not expired, ''
                     @ ''(3) Web API is enabled in Crestron Home settings'')))],
                s', calls)
           | _ \<Rightarrow>
               ([(''status'', Val (JStr ''error'')),
                 (''error'', StrOf e),
                 (''help'', Val (JStr
                    ''Check network connectivity and Crestron Home system status''))],
                s', calls)))"

section \<open>Shade control tools\<close>

text \<open>
  \<^verbatim>\<open>int(x)\<close> of a float truncates towards zero. Python's \<^verbatim>\<open>round(x)\<close> of a float goes to
  the nearest integer, a tie to the even one.
\<close>

definition py_int :: "rat \<Rightarrow> int" where
  "py_int x = (if 0 \<le> x then \<lfloor>x\<rfloor> else \<lceil>x\<rceil>)"

definition py_round :: "rat \<Rightarrow> int" where
  "py_round x =
     (if x - of_int \<lfloor>x\<rfloor> < 1 / 2 then \<lfloor>x\<rfloor>
      else if 1 / 2 < x - of_int \<lfloor>x\<rfloor> then \<lfloor>x\<rfloor> + 1
      else if even \<lfloor>x\<rfloor> then \<lfloor>x\<rfloor> else \<lfloor>x\<rfloor> + 1)"

text \<open>
  The write path, \<^verbatim>\<open>crestron_position = int(shade.position * 65535 / 100)\<close>: an integer
  product, a true division, a truncation. The quotient is taken exactly; it is an integer
  or at least 1/100 away from one, more than a binary64 division can err by at this
  magnitude, so the truncation of the float is the truncation of the exact quotient.
\<close>

definition crestron_position :: "int \<Rightarrow> int" where
  "crestron_position p = py_int (of_int (p * 65535) / 100)"

text \<open>
  The read path of \<^verbatim>\<open>crestron_get_shades\<close>,
  \<^verbatim>\<open>position = int(shade.get('position', 0) * 100 / 65535)\<close>, for one entry of the shade
  listing. A boolean multiplies as 0 or 1; a string or a list is repeated by \<^verbatim>\<open>* 100\<close>
  and then cannot be divided. For an integer raw value the quotient, again taken exactly,
  is an integer or at least 1/65535 away from one, so the truncation is that of the
  float.
\<close>

definition read_position :: "json \<Rightarrow> py_error + int" where
  "read_position shade =
     (case py_get shade ''position'' (JInt 0) of
        Inl e \<Rightarrow> Inl e
      | Inr v \<Rightarrow>
          (case v of
             JInt raw \<Rightarrow> Inr (py_int (of_int (raw * 100) / 65535))
           | JBool b \<Rightarrow> Inr (py_int (of_int ((if b then 1 else 0) * 100) / 65535))
           | JFloat x \<Rightarrow> Inr (py_int (x * 100 / 65535))
           | _ \<Rightarrow> Inl TypeError))"

text \<open>
  The round-to-nearest conversion \<^verbatim>\<open>raw = round(pct * 65535 / 100)\<close> of the written
  specification, for comparison with \<open>crestron_position\<close>.
\<close>

definition round_to_nearest_raw :: "int \<Rightarrow> int" where
  "round_to_nearest_raw p = py_round (of_int (p * 65535) / 100)"

text \<open>
  \<^verbatim>\<open>class ShadePosition\<close> and \<^verbatim>\<open>class SetShadeStateInput\<close> with the bounds that pydantic
  enforces before the tool runs. The field \<^verbatim>\<open>id\<close> is \<open>shade_id\<close> here.
\<close>

record ShadePosition =
  shade_id :: int
  position :: int

definition valid_ShadePosition :: "ShadePosition \<Rightarrow> bool" where
  "valid_ShadePosition sh = (1 \<le> shade_id sh \<and> 0 \<le> position sh \<and> position sh \<le> 100)"

definition valid_SetShadeStateInput :: "ShadePosition list \<Rightarrow> bool" where
  "valid_SetShadeStateInput shades =
     (1 \<le> length shades \<and> length shades \<le> 50 \<and> list_all valid_ShadePosition shades)"

text \<open>Decimal rendering of a natural number, as an f-string does it.\<close>

fun str_nat :: "nat \<Rightarrow> string" where
  "str_nat n =
     (if n < 10 then [''0123456789'' ! n]
      else str_nat (n div 10) @ [''0123456789'' ! (n mod 10)])"

declare str_nat.simps [simp del]

definition shade_command :: "ShadePosition \<Rightarrow> json" where
  "shade_command sh =
     JObj [(''id'', JInt (shade_id sh)), (''position'', JInt (crestron_position (position sh)))]"

text \<open>The three \<^verbatim>\<open>except\<close> clauses of \<^verbatim>\<open>crestron_set_shade_position\<close>, in their order.\<close>

definition set_shade_failure :: "py_error \<Rightarrow> reply" where
  "set_shade_failure e =
     (if is_ValueError e then [(''error'', StrOf e)]
      else (case e of
              HTTPStatusError code \<Rightarrow>
                [(''error'', Val (JStr ''Failed to set shade positions'')),
                 (''status_code'', Val (JInt (int code))),
                 (''details'', StrOf e)]
            | _ \<Rightarrow>
                [(''error'', Val (JStr ''Failed to set shade positions'')),
                 (''details'', StrOf e)]))"

definition set_state_body :: "ShadePosition list \<Rightarrow> json" where
  "set_state_body shades = JObj [(''shades'', JArr (map shade_command shades))]"

definition crestron_set_shade_position ::
  "ShadePosition list \<Rightarrow> rat \<Rightarrow> session \<Rightarrow> reply \<times> request list" where
  "crestron_set_shade_position shades now s =
     (case api_request ''/shades/SetState'' ''POST'' (Some (set_state_body shades)) True now s of
        (Inl e, calls) \<Rightarrow> (set_shade_failure e, calls)
      | (Inr result, calls) \<Rightarrow>
          (case py_get result ''status'' (JStr ''unknown'') of
             Inl e \<Rightarrow> (set_shade_failure e, calls)
           | Inr status \<Rightarrow>
               ([(''status'', Val status),
                 (''shades_updated'', Val (JInt (int (length shades)))),
                 (''details'', Val result)]
                @ (if status = JStr ''partial''
                   then [(''message'', Val (JStr
                           (''Some shades failed to update. Check 'errorDevices' in details. ''
                            @ ''Verify shade IDs are correct and devices are online.'')))]
                   else if status = JStr ''success''
                   then [(''message'', Val (JStr
                           (''Successfully updated '' @ str_nat (length shades) @ '' shade(s)'')))]
                   else []),
                calls)))"

section \<open>Response size\<close>

text \<open>
  \<^verbatim>\<open>truncate_response(response, items_count)\<close>. A Python string is a sequence of code
  points and \<^verbatim>\<open>len\<close> counts them, so the text is a list of code points here; the notice
  starts with two line feeds, the warning sign U+26A0 and the variation selector U+FE0F.
  \<open>str_commas\<close> is the format \<^verbatim>\<open>{n:,}\<close>: decimal digits in groups of three.
\<close>

definition CHARACTER_LIMIT :: nat where
  "CHARACTER_LIMIT = 25000"

definition code_points :: "string \<Rightarrow> nat list" where
  "code_points s = map of_char s"

fun str_commas :: "nat \<Rightarrow> string" where
  "str_commas n =
     (if n < 1000 then str_nat n
      else str_commas (n div 1000) @ '','' @
           [''0123456789'' ! (n mod 1000 div 100), ''0123456789'' ! (n mod 100 div 10),
            ''0123456789'' ! (n mod 10)])"

declare str_commas.simps [simp del]

definition truncation_msg :: "nat \<Rightarrow> int \<Rightarrow> nat list" where
  "truncation_msg n items_count =
     [10, 10, 9888, 65039] @ code_points '' **Response Truncated**'' @ [10]
     @ code_points (''The response was truncated from '' @ str_commas n @ '' to ''
                    @ str_commas CHARACTER_LIMIT @ '' characters. '')
     @ (if 0 < items_count
        then code_points (''Try using filters, reducing the limit parameter, ''
                          @ ''or requesting specific items to see more details.'')
        else code_points
               ''Try requesting specific items or using filters to reduce the response size.'')"

definition truncate_response :: "nat list \<Rightarrow> int \<Rightarrow> nat list" where
  "truncate_response response items_count =
     (if length response \<le> CHARACTER_LIMIT then response
      else take CHARACTER_LIMIT response @ truncation_msg (length response) items_count)"

section \<open>Device resolution\<close>

subsection \<open>Strings\<close>

text \<open>
  Names, types and utterances are ASCII text. \<^verbatim>\<open>str.lower()\<close> maps \<^verbatim>\<open>A\<close> to \<^verbatim>\<open>Z\<close> onto
  \<^verbatim>\<open>a\<close> to \<^verbatim>\<open>z\<close>; \<^verbatim>\<open>a in b\<close> holds when \<^verbatim>\<open>a\<close> occurs in \<^verbatim>\<open>b\<close> as a contiguous run, so
  the empty string is in every string; \<^verbatim>\<open>str.split()\<close> cuts at runs of whitespace and
  yields no empty word.
\<close>

definition lower_char :: "char \<Rightarrow> char" where
  "lower_char c =
     (case map_of (zip ''ABCDEFGHIJKLMNOPQRSTUVWXYZ'' ''abcdefghijklmnopqrstuvwxyz'') c of
        None \<Rightarrow> c
      | Some l \<Rightarrow> l)"

definition lower :: "string \<Rightarrow> string" where
  "lower s = map lower_char s"

fun starts_with :: "string \<Rightarrow> string \<Rightarrow> bool" where
  "starts_with [] ys = True"
| "starts_with (x # xs) [] = False"
| "starts_with (x # xs) (y # ys) = (x = y \<and> starts_with xs ys)"

fun py_in :: "string \<Rightarrow> string \<Rightarrow> bool" where
  "py_in xs [] = (xs = [])"
| "py_in xs (y # ys) = (starts_with xs (y # ys) \<or> py_in xs ys)"

definition is_space :: "char \<Rightarrow> bool" where
  "is_space c = ((of_char c :: nat) \<in> {9, 10, 11, 12, 13, 28, 29, 30, 31, 32})"

fun split_from :: "string \<Rightarrow> string \<Rightarrow> string list" where
  "split_from word [] = (if word = [] then [] else [word])"
| "split_from word (c # cs) =
     (if is_space c then (if word = [] then split_from [] cs else word # split_from [] cs)
      else split_from (word @ [c]) cs)"

definition py_split :: "string \<Rightarrow> string list" where
  "py_split s = split_from [] s"

subsection \<open>Operations on the listings\<close>

text \<open>\<^verbatim>\<open>x.lower()\<close> needs a string, \<^verbatim>\<open>x["key"]\<close> a dictionary that has the key.\<close>

fun py_lower :: "json \<Rightarrow> py_error + string" where
  "py_lower (JStr s) = Inr (lower s)"
| "py_lower v = Inl AttributeError"

fun py_item :: "json \<Rightarrow> string \<Rightarrow> py_error + json" where
  "py_item (JObj kvs) k = (case map_of kvs k of None \<Rightarrow> Inl (KeyError k) | Some v \<Rightarrow> Inr v)"
| "py_item v k = Inl TypeError"

text \<open>
  \<^verbatim>\<open>for x in v\<close>: the elements of a list, the keys of a dictionary, the characters of a
  string.
\<close>

fun py_iter :: "json \<Rightarrow> py_error + json list" where
  "py_iter (JArr xs) = Inr xs"
| "py_iter (JObj kvs) = Inr (map (\<lambda>kv. JStr (fst kv)) kvs)"
| "py_iter (JStr s) = Inr (map (\<lambda>c. JStr [c]) s)"
| "py_iter v = Inl TypeError"

text \<open>
  Dictionary keys. Lists and dictionaries cannot be hashed; numbers are equal as keys
  when they are numerically equal, with \<^verbatim>\<open>True\<close> and \<^verbatim>\<open>False\<close> counting as 1 and 0.
\<close>

datatype pykey = KNone | KNum rat | KStr string

fun hash_key :: "json \<Rightarrow> py_error + pykey" where
  "hash_key JNull = Inr KNone"
| "hash_key (JBool b) = Inr (KNum (if b then 1 else 0))"
| "hash_key (JInt n) = Inr (KNum (of_int n))"
| "hash_key (JFloat x) = Inr (KNum x)"
| "hash_key (JStr s) = Inr (KStr s)"
| "hash_key v = Inl TypeError"

text \<open>\<^verbatim>\<open>v == n\<close> for an integer \<^verbatim>\<open>n\<close>.\<close>

fun py_eq_int :: "json \<Rightarrow> int \<Rightarrow> bool" where
  "py_eq_int (JInt m) n = (m = n)"
| "py_eq_int (JBool b) n = ((if b then 1 else 0) = n)"
| "py_eq_int (JFloat x) n = (x = of_int n)"
| "py_eq_int v n = False"

text \<open>
  \<^verbatim>\<open>room_map = {r["id"]: r["name"].lower() for r in rooms}\<close>. The dictionary is the list of
  its entries, the latest first, so that a later room with the same id replaces an
  earlier one under \<open>map_of\<close>.
\<close>

fun room_map_of :: "json list \<Rightarrow> (pykey \<times> string) list \<Rightarrow> py_error + (pykey \<times> string) list" where
  "room_map_of [] acc = Inr acc"
| "room_map_of (r # rs) acc =
     (case py_item r ''id'' of
        Inl e \<Rightarrow> Inl e
      | Inr i \<Rightarrow>
          (case py_item r ''name'' of
             Inl e \<Rightarrow> Inl e
           | Inr n \<Rightarrow>
               (case py_lower n of
                  Inl e \<Rightarrow> Inl e
                | Inr name \<Rightarrow>
                    (case hash_key i of
                       Inl e \<Rightarrow> Inl e
                     | Inr k \<Rightarrow> room_map_of rs ((k, name) # acc)))))"

subsection \<open>Scoring\<close>

text \<open>
  The body of the loop over the devices, up to the test \<^verbatim>\<open>score > 0\<close>. Scores are sums of
  0.5, 0.3, 0.2 and multiples of 0.1, taken exactly. A binary64 sum of these differs from
  the exact one by less than 1e-15, which matters only for a score that is exactly 0.8
  or 1.0 in exact arithmetic; the scores evaluated below are 0, 0.3, 0.4 and 0.7.
\<close>

definition room_bonus ::
  "string \<Rightarrow> int option \<Rightarrow> (pykey \<times> string) list \<Rightarrow> json \<Rightarrow> py_error + rat" where
  "room_bonus utterance_lower preferred_room_id room_map device_room_id =
     (if (case preferred_room_id of None \<Rightarrow> False
          | Some p \<Rightarrow> p \<noteq> 0 \<and> py_eq_int device_room_id p)
      then Inr (2 / 10)
      else (case hash_key device_room_id of
              Inl e \<Rightarrow> Inl e
            | Inr k \<Rightarrow>
                (case map_of room_map k of
                   None \<Rightarrow> Inr 0
                 | Some room_name \<Rightarrow>
                     if py_in room_name utterance_lower then Inr (2 / 10) else Inr 0)))"

definition overlap :: "string \<Rightarrow> string \<Rightarrow> string list" where
  "overlap utterance_lower device_name =
     remdups (filter (\<lambda>w. w \<in> set (py_split device_name)) (py_split utterance_lower))"

definition score_device ::
  "string \<Rightarrow> int option \<Rightarrow> (pykey \<times> string) list \<Rightarrow> json \<Rightarrow> py_error + rat" where
  "score_device utterance_lower preferred_room_id room_map device =
     (case py_get device ''name'' (JStr '''') of
        Inl e \<Rightarrow> Inl e
      | Inr n \<Rightarrow>
     (case py_lower n of
        Inl e \<Rightarrow> Inl e
      | Inr device_name \<Rightarrow>
     (case py_get device ''type'' (JStr '''') of
        Inl e \<Rightarrow> Inl e
      | Inr t \<Rightarrow>
     (case py_lower t of
        Inl e \<Rightarrow> Inl e
      | Inr device_type \<Rightarrow>
     (case py_get device ''roomId'' JNull of
        Inl e \<Rightarrow> Inl e
      | Inr device_room_id \<Rightarrow>
     (case room_bonus utterance_lower preferred_room_id room_map device_room_id of
        Inl e \<Rightarrow> Inl e
      | Inr room \<Rightarrow>
          Inr ((if py_in device_name utterance_lower \<or> py_in utterance_lower device_name
                then 5 / 10 else 0)
               + (if py_in device_type utterance_lower then 3 / 10 else 0)
               + room
               + (1 / 10) * of_nat (length (overlap utterance_lower device_name)))))))))"

fun score_all ::
  "string \<Rightarrow> int option \<Rightarrow> (pykey \<times> string) list \<Rightarrow> json list \<Rightarrow> py_error + (json \<times> rat) list" where
  "score_all u p m [] = Inr []"
| "score_all u p m (device # rest) =
     (case score_device u p m device of
        Inl e \<Rightarrow> Inl e
      | Inr score \<Rightarrow>
          (case score_all u p m rest of
             Inl e \<Rightarrow> Inl e
           | Inr matches \<Rightarrow>
               Inr (if 0 < score then (device, min score 1) # matches else matches)))"

text \<open>
  \<^verbatim>\<open>matches.sort(key=lambda x: x["score"], reverse=True)\<close>: descending, and stable also
  with \<^verbatim>\<open>reverse=True\<close>, which is the stable ascending sort by the negated score.
\<close>

definition sort_matches :: "(json \<times> rat) list \<Rightarrow> (json \<times> rat) list" where
  "sort_matches matches = sort_key (\<lambda>m. - snd m) matches"

subsection \<open>The decision\<close>

text \<open>\<^verbatim>\<open>round(score, 2)\<close>.\<close>

definition py_round2 :: "rat \<Rightarrow> rat" where
  "py_round2 x = of_int (py_round (x * 100)) / 100"

definition candidate :: "json \<times> rat \<Rightarrow> py_error + json" where
  "candidate m =
     (case py_item (fst m) ''id'' of
        Inl e \<Rightarrow> Inl e
      | Inr i \<Rightarrow>
     (case py_item (fst m) ''name'' of
        Inl e \<Rightarrow> Inl e
      | Inr n \<Rightarrow>
     (case py_item (fst m) ''type'' of
        Inl e \<Rightarrow> Inl e
      | Inr t \<Rightarrow>
     (case py_get (fst m) ''subType'' JNull of
        Inl e \<Rightarrow> Inl e
      | Inr st \<Rightarrow>
     (case py_get (fst m) ''roomId'' JNull of
        Inl e \<Rightarrow> Inl e
      | Inr r \<Rightarrow>
          Inr (JObj [(''device_id'', i), (''name'', n), (''type'', t), (''subType'', st),
                     (''room_id'', r), (''confidence'', JFloat (py_round2 (snd m)))]))))))"

fun candidates_of :: "(json \<times> rat) list \<Rightarrow> py_error + json list" where
  "candidates_of [] = Inr []"
| "candidates_of (m # ms) =
     (case candidate m of
        Inl e \<Rightarrow> Inl e
      | Inr c \<Rightarrow> (case candidates_of ms of Inl e \<Rightarrow> Inl e | Inr cs \<Rightarrow> Inr (c # cs)))"

definition decide :: "string \<Rightarrow> (json \<times> rat) list \<Rightarrow> py_error + reply" where
  "decide utterance matches =
     (case matches of
        [] \<Rightarrow>
          Inr [(''resolved'', Val (JBool False)),
               (''confidence'', Val (JFloat 0)),
               (''original_utterance'', Val (JStr utterance)),
               (''message'', Val (JStr ''No devices matched the description'')),
               (''help'', Val (JStr ''Try using crestron_list_devices to see available devices''))]
      | best # others \<Rightarrow>
          if 8 / 10 \<le> snd best
          then
            (case py_item (fst best) ''id'' of
               Inl e \<Rightarrow> Inl e
             | Inr i \<Rightarrow>
            (case py_item (fst best) ''name'' of
               Inl e \<Rightarrow> Inl e
             | Inr n \<Rightarrow>
            (case py_item (fst best) ''type'' of
               Inl e \<Rightarrow> Inl e
             | Inr t \<Rightarrow>
            (case py_get (fst best) ''roomId'' JNull of
               Inl e \<Rightarrow> Inl e
             | Inr r \<Rightarrow>
                 Inr [(''resolved'', Val (JBool True)),
                      (''confidence'', Val (JFloat (snd best))),
                      (''device_id'', Val i),
                      (''device_name'', Val n),
                      (''device_type'', Val t),
                      (''room_id'', Val r),
                      (''original_utterance'', Val (JStr utterance)),
                      (''message'', Val (JStr ''Device successfully resolved''))]))))
          else
            (case candidates_of (take 5 matches) of
               Inl e \<Rightarrow> Inl e
             | Inr candidates \<Rightarrow>
                 Inr [(''resolved'', Val (JBool False)),
                      (''confidence'', Val (JFloat (snd best))),
                      (''original_utterance'', Val (JStr utterance)),
                      (''clarification_needed'', Val (JBool True)),
                      (''candidates'', Val (JArr candidates)),
                      (''message'', Val (JStr
                         (''Found '' @ str_nat (length candidates)
                          @ '' possible matches. Please clarify which device you mean ''
                          @ ''by providing more specific information (room name, device type, etc.)'')))]))"

text \<open>
  What \<^verbatim>\<open>crestron_resolve_device\<close> does with the two listings once both calls have
  returned, and the tool itself. The two calls read the clock one after the other.
\<close>

definition resolve ::
  "string \<Rightarrow> int option \<Rightarrow> json \<Rightarrow> json \<Rightarrow> py_error + reply" where
  "resolve utterance preferred_room_id devices rooms_data =
     (case py_get rooms_data ''rooms'' (JArr []) of
        Inl e \<Rightarrow> Inl e
      | Inr rooms \<Rightarrow>
     (case py_iter rooms of
        Inl e \<Rightarrow> Inl e
      | Inr rs \<Rightarrow>
     (case room_map_of rs [] of
        Inl e \<Rightarrow> Inl e
      | Inr room_map \<Rightarrow>
     (case py_iter devices of
        Inl e \<Rightarrow> Inl e
      | Inr ds \<Rightarrow>
     (case score_all (lower utterance) preferred_room_id room_map ds of
        Inl e \<Rightarrow> Inl e
      | Inr matches \<Rightarrow> decide utterance (sort_matches matches))))))"

definition resolve_failure :: "py_error \<Rightarrow> reply" where
  "resolve_failure e =
     (if is_ValueError e then [(''error'', StrOf e)]
      else [(''error'', Val (JStr ''Failed to resolve device'')), (''details'', StrOf e)])"

definition crestron_resolve_device ::
  "string \<Rightarrow> int option \<Rightarrow> rat \<Rightarrow> rat \<Rightarrow> session \<Rightarrow> reply \<times> request list" where
  "crestron_resolve_device utterance preferred_room_id now1 now2 s =
     (case api_request ''/devices'' ''GET'' None True now1 s of
        (Inl e, calls1) \<Rightarrow> (resolve_failure e, calls1)
      | (Inr data, calls1) \<Rightarrow>
          (case py_get data ''devices'' (JArr []) of
             Inl e \<Rightarrow> (resolve_failure e, calls1)
           | Inr devices \<Rightarrow>
               (case api_request ''/rooms'' ''GET'' None True now2 s of
                  (Inl e, calls2) \<Rightarrow> (resolve_failure e, calls1 @ calls2)
                | (Inr rooms_data, calls2) \<Rightarrow>
                    (case resolve utterance preferred_room_id devices rooms_data of
                       Inl e \<Rightarrow> (resolve_failure e, calls1 @ calls2)
                     | Inr response \<Rightarrow> (response, calls1 @ calls2)))))"

section \<open>Scenarios\<close>

text \<open>Concrete sessions, remotes and inputs at which the theorems below are evaluated.\<close>

definition expired_session :: session where
  "expired_session =
     \<lparr>host = Some ''crestron.local'', auth_key = JStr ''KEY'', session_start = Some 100,
      client = Some (\<lambda>req. Inr (Response 200 (Inr (JObj []))))\<rparr>"

definition array_body_client :: http_client where
  "array_body_client = (\<lambda>req. Inr (Response 200 (Inr (JArr []))))"

definition live_session :: session where
  "live_session =
     \<lparr>host = Some ''crestron.local'', auth_key = JStr ''KEY'', session_start = Some 100,
      client = Some array_body_client\<rparr>"

definition keyless_login_client :: http_client where
  "keyless_login_client = (\<lambda>req. Inr (Response 200 (Inr (JObj [(''version'', JStr ''2.0'')]))))"

definition fresh_session :: session where
  "fresh_session = new_session\<lparr>client := Some keyless_login_client\<rparr>"

definition three_shades :: "ShadePosition list" where
  "three_shades =
     [\<lparr>shade_id = 1, position = 50\<rparr>, \<lparr>shade_id = 2, position = 0\<rparr>,
      \<lparr>shade_id = 3, position = 100\<rparr>]"

definition partial_body :: json where
  "partial_body =
     JObj [(''status'', JStr ''partial''),
           (''errorMessage'', JStr ''Shade(s) with ID(s) [2] failed to update.''),
           (''errorDevices'', JArr [JInt 2]),
           (''version'', JStr ''1.000.0001'')]"

definition partial_session :: session where
  "partial_session =
     \<lparr>host = Some ''crestron.local'', auth_key = JStr ''KEY'', session_start = Some 100,
      client = Some (\<lambda>req. Inr (Response 200 (Inr partial_body)))\<rparr>"

definition chandelier :: json where
  "chandelier =
     JObj [(''id'', JInt 10), (''name'', JStr ''Lampadario Soggiorno''), (''type'', JStr ''light''),
           (''subType'', JStr ''Dimmer''), (''roomId'', JInt 1)]"

definition living_room_listing :: json where
  "living_room_listing = JObj [(''rooms'', JArr [JObj [(''id'', JInt 1), (''name'', JStr ''Soggiorno'')]])]"

definition listing_client :: "json \<Rightarrow> json \<Rightarrow> http_client" where
  "listing_client devices_body rooms_body =
     (\<lambda>req. if url req = ''https://crestron.local/cws/api/devices''
            then Inr (Response 200 (Inr devices_body))
            else Inr (Response 200 (Inr rooms_body)))"

definition listing_session :: "json \<Rightarrow> json \<Rightarrow> session" where
  "listing_session devices_body rooms_body =
     \<lparr>host = Some ''crestron.local'', auth_key = JStr ''KEY'', session_start = Some 100,
      client = Some (listing_client devices_body rooms_body)\<rparr>"

definition devices_request :: request where
  "devices_request =
     \<lparr>url = ''https://crestron.local/cws/api/devices'', http_method = ''GET'',
      headers = [(''Crestron-RestAPI-AuthKey'', JStr ''KEY'')], body = None\<rparr>"

definition rooms_request :: request where
  "rooms_request =
     \<lparr>url = ''https://crestron.local/cws/api/rooms'', http_method = ''GET'',
      headers = [(''Crestron-RestAPI-AuthKey'', JStr ''KEY'')], body = None\<rparr>"

definition lamp_one :: json where
  "lamp_one =
     JObj [(''id'', JInt 1), (''name'', JStr ''Lampadario''), (''type'', JStr ''light''),
           (''subType'', JStr ''Dimmer''), (''roomId'', JInt 1)]"

definition lamp_two :: json where
  "lamp_two =
     JObj [(''id'', JInt 2), (''name'', JStr ''Applique''), (''type'', JStr ''light''),
           (''subType'', JStr ''Switch''), (''roomId'', JInt 2)]"

definition two_lights_listing :: json where
  "two_lights_listing = JObj [(''devices'', JArr [lamp_one, lamp_two])]"

definition two_rooms_listing :: json where
  "two_rooms_listing =
     JObj [(''rooms'', JArr [JObj [(''id'', JInt 1), (''name'', JStr ''Soggiorno'')],
                            JObj [(''id'', JInt 2), (''name'', JStr ''Cucina'')]])]"

definition two_rooms_map :: "(pykey \<times> string) list" where
  "two_rooms_map = [(KNum 2, ''cucina''), (KNum 1, ''soggiorno'')]"


section \<open>Session validity and the dispatcher's guard\<close>

lemma is_valid_iff:
  "is_valid s now \<longleftrightarrow>
     truthy (auth_key s) \<and> (\<exists>t. session_start s = Some t \<and> t \<noteq> 0 \<and> now - t < SESSION_TIMEOUT)"
  by (cases "session_start s") (auto simp: is_valid_def)

lemma api_request_invalid:
  "\<not> is_valid s now \<Longrightarrow> api_request ep m b True now s = (Inl NOT_AUTHENTICATED, [])"
  by (simp add: api_request_def)

text \<open>
  The issuance time is \<^verbatim>\<open>None\<close> at first and after \<^verbatim>\<open>clear\<close>, and otherwise the clock
  reading that \<^verbatim>\<open>authenticate\<close> stored. The event loop's clock is monotonic and does not
  read 0.0 while the program runs, so no session of the program has the issuance time
  0.0: the property holds at the start and every operation on the session keeps it.
\<close>

lemma new_session_start: "session_start new_session \<noteq> Some 0"
  by (simp add: new_session_def)

lemma clear_start: "session_start (clear s) \<noteq> Some 0"
  by (simp add: clear_def)

lemma authenticate_start:
  assumes "now \<noteq> 0" and "session_start s \<noteq> Some 0"
    and "authenticate h tok now s = (res, s', calls)"
  shows "session_start s' \<noteq> Some 0"
  using assms
  by (auto simp: authenticate_def split: option.splits sum.splits)

text \<open>
  Claim C3. In a session of the program (its issuance time is not 0.0, see above), the
  validity check succeeds exactly when a credential is set, that is the stored key is
  non-empty, an issuance time is recorded, and the elapsed time \<open>now - session_start\<close>
  is strictly below the 540 seconds of \<open>SESSION_TIMEOUT\<close>. Whenever the check fails, a
  call with \<open>require_auth\<close> true raises the not-authenticated \<^verbatim>\<open>ValueError\<close> and hands no
  request to the client; in particular when the credential is \<^verbatim>\<open>None\<close>, when no session
  was ever established (no issuance time), and when at least 540 seconds have elapsed.
\<close>

theorem not_authenticated_without_valid_session:
  assumes "session_start s \<noteq> Some 0"
  shows "(is_valid s now \<longleftrightarrow>
            truthy (auth_key s) \<and>
            (\<exists>t. session_start s = Some t \<and> now - t < SESSION_TIMEOUT))
         \<and> (\<not> is_valid s now \<longrightarrow>
                api_request ep m b True now s = (Inl NOT_AUTHENTICATED, []))
         \<and> (auth_key s = JNull \<or> session_start s = None
              \<or> (\<exists>t. session_start s = Some t \<and> SESSION_TIMEOUT \<le> now - t)
             \<longrightarrow> api_request ep m b True now s = (Inl NOT_AUTHENTICATED, []))"
proof (intro conjI impI)
  show "is_valid s now \<longleftrightarrow>
      truthy (auth_key s) \<and> (\<exists>t. session_start s = Some t \<and> now - t < SESSION_TIMEOUT)"
    using assms by (auto simp: is_valid_iff)
next
  assume "\<not> is_valid s now"
  then show "api_request ep m b True now s = (Inl NOT_AUTHENTICATED, [])"
    by (rule api_request_invalid)
next
  assume "auth_key s = JNull \<or> session_start s = None
        \<or> (\<exists>t. session_start s = Some t \<and> SESSION_TIMEOUT \<le> now - t)"
  then have "\<not> is_valid s now"
    by (auto simp: is_valid_iff)
  then show "api_request ep m b True now s = (Inl NOT_AUTHENTICATED, [])"
    by (rule api_request_invalid)
qed

text \<open>
  A session issued at clock reading 100: valid at 639, expired at 640, where the call is
  refused without a request.
\<close>

theorem not_authenticated_without_valid_session_witness:
  "session_start expired_session \<noteq> Some 0
   \<and> \<not> is_valid expired_session 640
   \<and> api_request ''/rooms'' ''GET'' None True 640 expired_session = (Inl NOT_AUTHENTICATED, [])
   \<and> is_valid expired_session 639"
proof -
  have h: "session_start expired_session \<noteq> Some 0"
    by (simp add: expired_session_def)
  show ?thesis
    using h
      not_authenticated_without_valid_session [OF h, of 640 "''/rooms''" "''GET''" None]
      not_authenticated_without_valid_session [OF h, of 639 "''/rooms''" "''GET''" None]
    by (simp add: expired_session_def SESSION_TIMEOUT_def)
qed

text \<open>
  The dispatcher's guard at the start of the program: no session was ever established,
  and the call is refused without a request.
\<close>

lemma no_session_ever_established:
  "api_request ep m b True now (new_session\<lparr>client := c\<rparr>) = (Inl NOT_AUTHENTICATED, [])"
  by (simp add: api_request_def is_valid_def new_session_def)


section \<open>What a failed login leaves behind\<close>

text \<open>
  \<^verbatim>\<open>authenticate\<close> assigns the session only after the status check and the decoding of
  the body, so a transport failure, a rejected token and an undecodable body leave the
  session as it was. The three assignments are not one step, though: the host is
  assigned before \<^verbatim>\<open>data.get("AuthKey")\<close> is evaluated, and that call raises when the body
  is JSON but not an object.
\<close>

lemma authenticate_failure_frame:
  assumes "authenticate h tok now s = (Inl e, s', calls)"
  shows "auth_key s' = auth_key s \<and> session_start s' = session_start s \<and> client s' = client s
         \<and> (host s' = host s \<or> host s' = Some h \<and> e = AttributeError)"
proof -
  have g: "\<And>d k x. py_get d k x = Inl e \<Longrightarrow> e = AttributeError"
  proof -
    fix d k x
    assume "py_get d k x = Inl e"
    then show "e = AttributeError"
      by (cases d) (auto split: option.splits)
  qed
  show ?thesis
    using assms
    by (auto simp: authenticate_def split: option.splits sum.splits dest: g)
qed

lemma authenticate_rejected:
  assumes "client s = Some c" and "c (login_request h tok) = Inr r"
    and "\<not> (200 \<le> status_code r \<and> status_code r < 300)"
  shows "authenticate h tok now s = (Inl (HTTPStatusError (status_code r)), s, [login_request h tok])"
  using assms by (auto simp: authenticate_def raise_for_status_def)

lemma authenticate_network_failure:
  assumes "client s = Some c" and "c (login_request h tok) = Inl e"
  shows "authenticate h tok now s = (Inl e, s, [login_request h tok])"
  using assms by (simp add: authenticate_def)

text \<open>
  Claim C5 at the input where the code departs from it. A session for
  \<^verbatim>\<open>crestron.local\<close> is valid; a login at another host is answered 200 with the body
  \<^verbatim>\<open>[]\<close>. \<^verbatim>\<open>authenticate\<close> raises, yet the stored host is now the other host while
  credential and issuance time are the old ones, and the next call sends the old
  credential to the other host.
\<close>

theorem authenticate_failure_overwrites_host:
  "authenticate ''other.example'' ''TOKEN'' 200 live_session =
     (Inl AttributeError, live_session\<lparr>host := Some ''other.example''\<rparr>,
      [login_request ''other.example'' ''TOKEN''])
   \<and> api_request ''/rooms'' ''GET'' None True 200
         (live_session\<lparr>host := Some ''other.example''\<rparr>) =
       (Inr (JArr []),
        [\<lparr>url = ''https://other.example/cws/api/rooms'', http_method = ''GET'',
          headers = [(''Crestron-RestAPI-AuthKey'', JStr ''KEY'')], body = None\<rparr>])"
  by (simp add: authenticate_def live_session_def array_body_client_def raise_for_status_def
      is_valid_def SESSION_TIMEOUT_def api_request_def send_def host_text_def)


section \<open>A login response without a credential\<close>

text \<open>
  Claim C10. When the login is answered 2xx with a JSON object that has no \<^verbatim>\<open>"AuthKey"\<close>
  entry, \<^verbatim>\<open>authenticate\<close> returns the body and stores \<^verbatim>\<open>None\<close> as the credential (with the
  host and the issuance time), \<^verbatim>\<open>crestron_authenticate\<close> replies with status
  \<^verbatim>\<open>success\<close>, and in the session so stored every call with \<open>require_auth\<close> true, for
  any endpoint, method, body and time, raises the not-authenticated error without a
  request.
\<close>

theorem login_without_AuthKey:
  assumes "client s = Some c"
    and "c (login_request h tok) = Inr r"
    and "200 \<le> status_code r \<and> status_code r < 300"
    and "json_result r = Inr (JObj kvs)"
    and "map_of kvs ''AuthKey'' = None"
  shows "authenticate h tok now s =
           (Inr (JObj kvs), s\<lparr>host := Some h, auth_key := JNull, session_start := Some now\<rparr>,
            [login_request h tok])
         \<and> map_of (fst (crestron_authenticate h tok now s)) ''status'' = Some (Val (JStr ''success''))
         \<and> fst (snd (crestron_authenticate h tok now s)) =
             s\<lparr>host := Some h, auth_key := JNull, session_start := Some now\<rparr>
         \<and> (\<forall>ep m b t. api_request ep m b True t
               (s\<lparr>host := Some h, auth_key := JNull, session_start := Some now\<rparr>) =
               (Inl NOT_AUTHENTICATED, []))"
proof -
  have a: "authenticate h tok now s =
           (Inr (JObj kvs), s\<lparr>host := Some h, auth_key := JNull, session_start := Some now\<rparr>,
            [login_request h tok])"
    using assms by (simp add: authenticate_def raise_for_status_def)
  have b: "\<And>t. \<not> is_valid (s\<lparr>host := Some h, auth_key := JNull, session_start := Some now\<rparr>) t"
    by (simp add: is_valid_def)
  show ?thesis
    using a b by (simp add: crestron_authenticate_def api_request_def split: option.splits)
qed

text \<open>A first login answered with \<^verbatim>\<open>{"version": "2.0"}\<close>.\<close>

theorem login_without_AuthKey_witness:
  "auth_key (fst (snd (crestron_authenticate ''crestron.local'' ''TOKEN'' 50 fresh_session))) = JNull
   \<and> map_of (fst (crestron_authenticate ''crestron.local'' ''TOKEN'' 50 fresh_session)) ''status''
       = Some (Val (JStr ''success''))
   \<and> api_request ''/rooms'' ''GET'' None True 51
        (fst (snd (crestron_authenticate ''crestron.local'' ''TOKEN'' 50 fresh_session)))
       = (Inl NOT_AUTHENTICATED, [])"
  using login_without_AuthKey
          [of fresh_session keyless_login_client "''crestron.local''" "''TOKEN''"
              "Response 200 (Inr (JObj [(''version'', JStr ''2.0'')]))"
              "[(''version'', JStr ''2.0'')]" 50]
  by (simp add: fresh_session_def new_session_def keyless_login_client_def)


section \<open>Percentage and raw scale\<close>

lemma py_int_div: "0 \<le> a \<Longrightarrow> py_int (of_int a / 100) = a div 100"
proof -
  assume "0 \<le> a"
  have "\<lfloor>(of_int a :: rat) / of_int 100\<rfloor> = a div 100"
    by (rule floor_divide_of_int_eq)
  then show ?thesis using \<open>0 \<le> a\<close> by (simp add: py_int_def)
qed

lemma py_int_div_65535: "0 \<le> a \<Longrightarrow> py_int (of_int a / 65535) = a div 65535"
proof -
  assume "0 \<le> a"
  have "\<lfloor>(of_int a :: rat) / of_int 65535\<rfloor> = a div 65535"
    by (rule floor_divide_of_int_eq)
  then show ?thesis using \<open>0 \<le> a\<close> by (simp add: py_int_def)
qed

lemma crestron_position_div: "0 \<le> p \<Longrightarrow> crestron_position p = p * 65535 div 100"
  unfolding crestron_position_def by (rule py_int_div) simp

lemma crestron_position_examples: "crestron_position 50 = 32767" "crestron_position 2 = 1310"
  by (simp_all add: crestron_position_div)

lemma py_round_up:
  assumes "of_int z + 1 / 2 < x" and "x < of_int z + 1"
  shows "py_round x = z + 1"
proof -
  have f: "\<lfloor>x\<rfloor> = z"
    using assms by (intro floor_unique) auto
  show ?thesis
    unfolding py_round_def f using assms by auto
qed

lemma py_round_tie_odd:
  assumes "x = of_int z + 1 / 2" and "odd z"
  shows "py_round x = z + 1"
proof -
  have f: "\<lfloor>x\<rfloor> = z"
    using assms by (intro floor_unique) auto
  show ?thesis
    unfolding py_round_def f using assms by auto
qed

lemma round_to_nearest_raw_2: "round_to_nearest_raw 2 = 1311"
proof -
  have "py_round (of_int (2 * 65535) / 100) = 1310 + 1"
    by (rule py_round_up) simp_all
  then show ?thesis by (simp add: round_to_nearest_raw_def)
qed

lemma round_to_nearest_raw_50: "round_to_nearest_raw 50 = 32768"
proof -
  have "py_round (of_int (50 * 65535) / 100) = 32767 + 1"
    by (rule py_round_tie_odd) simp_all
  then show ?thesis by (simp add: round_to_nearest_raw_def)
qed


lemma read_position_command:
  assumes "0 \<le> p"
  shows "read_position (shade_command \<lparr>shade_id = i, position = p\<rparr>) =
           Inr (crestron_position p * 100 div 65535)"
proof -
  have "0 \<le> crestron_position p * 100"
    using assms by (simp add: crestron_position_div)
  then have "py_int (of_int (crestron_position p * 100) / 65535) =
               crestron_position p * 100 div 65535"
    by (rule py_int_div_65535)
  then show ?thesis
    by (simp add: read_position_def shade_command_def)
qed

lemma div_100_bounds: "(a::int) - 99 \<le> a div 100 * 100 \<and> a div 100 * 100 \<le> a"
  by presburger

lemma round_trip_bounds:
  assumes "0 \<le> (p::int)"
  shows "p - 1 \<le> (p * 65535 div 100) * 100 div 65535"
    and "(p * 65535 div 100) * 100 div 65535 \<le> p"
proof -
  define a where "a = p * 65535"
  define raw where "raw = a div 100"
  have up: "raw * 100 \<le> p * 65535" and lo: "p * 65535 - 99 \<le> raw * 100"
    using div_100_bounds [of a] unfolding raw_def a_def by auto
  have "(p - 1) * 65535 \<le> raw * 100"
    using lo by (simp add: algebra_simps)
  then have "(p - 1) * 65535 div 65535 \<le> raw * 100 div 65535"
    by (rule zdiv_mono1) simp
  then show "p - 1 \<le> (p * 65535 div 100) * 100 div 65535"
    unfolding raw_def a_def by simp
  have "raw * 100 div 65535 \<le> p * 65535 div 65535"
    using up by (rule zdiv_mono1) simp
  then show "(p * 65535 div 100) * 100 div 65535 \<le> p"
    unfolding raw_def a_def by simp
qed

text \<open>
  Claim C4. For an integer percentage \<open>p\<close> from 0 to 100, the shade command written for
  \<open>p\<close> reads back, by the read path, as a percentage that differs from \<open>p\<close> by at
  most 1; 0 is written as 0 and 100 as 65535.
\<close>

theorem percent_round_trip:
  assumes "0 \<le> p" and "p \<le> 100"
  shows "(\<exists>q. read_position (shade_command \<lparr>shade_id = i, position = p\<rparr>) = Inr q
              \<and> \<bar>q - p\<bar> \<le> 1)
         \<and> crestron_position 0 = 0 \<and> crestron_position 100 = 65535"
proof -
  have "\<bar>crestron_position p * 100 div 65535 - p\<bar> \<le> 1"
    using round_trip_bounds [OF assms(1)] assms(1) by (simp add: crestron_position_div)
  then show ?thesis
    using read_position_command [OF assms(1), of i] by (simp add: crestron_position_div)
qed

text \<open>50 percent is written as 32767 and reads back as 49.\<close>

theorem percent_round_trip_witness:
  "read_position (shade_command \<lparr>shade_id = 20, position = 50\<rparr>) = Inr 49
   \<and> crestron_position 50 = 32767 \<and> crestron_position 0 = 0 \<and> crestron_position 100 = 65535"
  using percent_round_trip [of 50 20] read_position_command [of 50 20]
  by (simp add: crestron_position_div)

text \<open>
  Claim C6, as the code has it. For \<open>p\<close> from 0 to 100 the write path gives the floor of
  \<open>p * 65535 / 100\<close>, that is \<open>p * 65535 div 100\<close>: \<^verbatim>\<open>int()\<close> truncates. It is the rule
  of the read path, which gives the floor of \<open>raw * 100 / 65535\<close>.
\<close>

theorem write_path_truncates:
  assumes "0 \<le> p" and "p \<le> 100"
  shows "crestron_position p = \<lfloor>(of_int (p * 65535) :: rat) / 100\<rfloor>
         \<and> crestron_position p = p * 65535 div 100
         \<and> read_position (JObj [(''position'', JInt (crestron_position p))]) =
             Inr (\<lfloor>(of_int (crestron_position p * 100) :: rat) / 65535\<rfloor>)"
proof -
  have a: "crestron_position p = \<lfloor>(of_int (p * 65535) :: rat) / 100\<rfloor>"
    unfolding crestron_position_def py_int_def using assms(1) by simp
  have b: "crestron_position p = p * 65535 div 100"
    using assms(1) by (rule crestron_position_div)
  have "0 \<le> crestron_position p"
    using assms(1) by (simp add: b)
  then have c: "py_int (of_int (crestron_position p * 100) / 65535) =
               \<lfloor>(of_int (crestron_position p * 100) :: rat) / 65535\<rfloor>"
    unfolding py_int_def by simp
  show ?thesis
    using a b c by (simp add: read_position_def)
qed

theorem write_path_truncates_witness:
  "crestron_position 50 = \<lfloor>(of_int (50 * 65535) :: rat) / 100\<rfloor>
   \<and> crestron_position 50 = 32767"
  using write_path_truncates [of 50] by simp

text \<open>
  The claim as written, that the write path is \<^verbatim>\<open>round(p * 65535 / 100)\<close>, fails at 2 percent
  (1310.7 is written as 1310, its rounding is 1311) and at 50 percent (32767.5 is written
  as 32767, its rounding is 32768).
\<close>

theorem write_path_round_counterexample:
  "crestron_position 2 = 1310 \<and> round_to_nearest_raw 2 = 1311
   \<and> crestron_position 50 = 32767 \<and> round_to_nearest_raw 50 = 32768"
  by (simp add: crestron_position_examples round_to_nearest_raw_2 round_to_nearest_raw_50)



section \<open>The reply to a shade batch\<close>

text \<open>
  Claim C9. Whenever the call to \<^verbatim>\<open>/shades/SetState\<close> returns a JSON object, the reply
  holds \<^verbatim>\<open>shades_updated\<close> equal to the number of commands in the request, whatever the
  object says; the status is the object's own \<^verbatim>\<open>status\<close> entry (\<^verbatim>\<open>unknown\<close> when it has
  none) and the object is passed on under \<^verbatim>\<open>details\<close>. This holds for any list of
  commands, so for every accepted one.
\<close>

theorem shades_updated_is_request_length:
  assumes "api_request ''/shades/SetState'' ''POST'' (Some (set_state_body shades)) True now s =
             (Inr (JObj kvs), calls)"
  shows "map_of (fst (crestron_set_shade_position shades now s)) ''shades_updated'' =
           Some (Val (JInt (int (length shades))))
         \<and> map_of (fst (crestron_set_shade_position shades now s)) ''status'' =
           Some (Val (case map_of kvs ''status'' of None \<Rightarrow> JStr ''unknown'' | Some v \<Rightarrow> v))
         \<and> map_of (fst (crestron_set_shade_position shades now s)) ''details'' =
           Some (Val (JObj kvs))"
  using assms
  by (simp add: crestron_set_shade_position_def split: option.splits)

lemma partial_request:
  "api_request ''/shades/SetState'' ''POST'' (Some (set_state_body three_shades)) True 200
     partial_session =
   (Inr partial_body,
    [\<lparr>url = ''https://crestron.local/cws/api/shades/SetState'', http_method = ''POST'',
      headers = [(''Crestron-RestAPI-AuthKey'', JStr ''KEY''),
                 (''Content-Type'', JStr ''application/json'')],
      body = Some (set_state_body three_shades)\<rparr>])"
  by (simp add: api_request_def is_valid_def SESSION_TIMEOUT_def partial_session_def send_def
      raise_for_status_def host_text_def)

text \<open>
  Three shades, of which the remote reports shade 2 as failed with status \<^verbatim>\<open>partial\<close>: the
  count in the reply is 3.
\<close>

theorem shades_updated_is_request_length_witness:
  "valid_SetShadeStateInput three_shades
   \<and> map_of (fst (crestron_set_shade_position three_shades 200 partial_session))
         ''shades_updated'' = Some (Val (JInt 3))
   \<and> map_of (fst (crestron_set_shade_position three_shades 200 partial_session))
         ''status'' = Some (Val (JStr ''partial''))"
proof -
  have v: "valid_SetShadeStateInput three_shades"
    by (simp add: valid_SetShadeStateInput_def valid_ShadePosition_def three_shades_def)
  have r: "api_request ''/shades/SetState'' ''POST'' (Some (set_state_body three_shades)) True 200
             partial_session =
           (Inr (JObj [(''status'', JStr ''partial''),
                  (''errorMessage'', JStr ''Shade(s) with ID(s) [2] failed to update.''),
                  (''errorDevices'', JArr [JInt 2]),
                  (''version'', JStr ''1.000.0001'')]),
            [\<lparr>url = ''https://crestron.local/cws/api/shades/SetState'', http_method = ''POST'',
              headers = [(''Crestron-RestAPI-AuthKey'', JStr ''KEY''),
                         (''Content-Type'', JStr ''application/json'')],
              body = Some (set_state_body three_shades)\<rparr>])"
    using partial_request by (simp add: partial_body_def)
  have n: "length three_shades = 3"
    by (simp add: three_shades_def)
  show ?thesis
    using v shades_updated_is_request_length [OF r] by (simp add: n)
qed

text \<open>
  Claim C1 at the input of the claim. Three shades are set in one remote call that
  carries all three commands; the remote answers 200 with status \<^verbatim>\<open>partial\<close> and
  \<^verbatim>\<open>errorDevices = [2]\<close>. The reply is the remote's status, the count 3, the remote's
  answer under \<^verbatim>\<open>details\<close> and a fixed message. It has no entry for the targets that
  succeeded (1 and 3 occur nowhere in it) and none for those that failed; the per-item
  error list is passed on unread.
\<close>

theorem partial_batch_reply:
  "crestron_set_shade_position three_shades 200 partial_session =
     ([(''status'', Val (JStr ''partial'')),
       (''shades_updated'', Val (JInt 3)),
       (''details'', Val partial_body),
       (''message'', Val (JStr
          (''Some shades failed to update. Check 'errorDevices' in details. ''
           @ ''Verify shade IDs are correct and devices are online.'')))],
      [\<lparr>url = ''https://crestron.local/cws/api/shades/SetState'', http_method = ''POST'',
        headers = [(''Crestron-RestAPI-AuthKey'', JStr ''KEY''),
                   (''Content-Type'', JStr ''application/json'')],
        body = Some (JObj [(''shades'',
                 JArr [JObj [(''id'', JInt 1), (''position'', JInt 32767)],
                       JObj [(''id'', JInt 2), (''position'', JInt 0)],
                       JObj [(''id'', JInt 3), (''position'', JInt 65535)]])])\<rparr>])"
proof -
  have b: "set_state_body three_shades =
             JObj [(''shades'',
                 JArr [JObj [(''id'', JInt 1), (''position'', JInt 32767)],
                       JObj [(''id'', JInt 2), (''position'', JInt 0)],
                       JObj [(''id'', JInt 3), (''position'', JInt 65535)]])]"
    by (simp add: set_state_body_def three_shades_def shade_command_def crestron_position_div)
  have n: "length three_shades = 3"
    by (simp add: three_shades_def)
  have g: "py_get partial_body ''status'' (JStr ''unknown'') = Inr (JStr ''partial'')"
    by (simp add: partial_body_def)
  show ?thesis
    unfolding crestron_set_shade_position_def partial_request
    by (simp add: g n b)
qed


section \<open>The cap on a textual response\<close>

lemma str_commas_limit: "str_commas CHARACTER_LIMIT = ''25,000''"
  by (simp add: CHARACTER_LIMIT_def str_commas.simps str_nat.simps)

lemma str_commas_ex: "str_commas 1234567 = ''1,234,567''" "str_commas 25001 = ''25,001''"
  "str_commas 999 = ''999''" "str_commas 1000 = ''1,000''"
  by (simp_all add: str_commas.simps str_nat.simps)

lemma code_points_append: "code_points (a @ b) = code_points a @ code_points b"
  by (simp add: code_points_def)

lemma notice_states_sizes:
  "sublist (code_points (''truncated from '' @ str_commas n @ '' to 25,000 characters''))
     (truncation_msg n ic)"
proof -
  have "truncation_msg n ic =
          ([10, 10, 9888, 65039] @ code_points '' **Response Truncated**'' @ [10]
            @ code_points ''The response was '')
          @ code_points (''truncated from '' @ str_commas n @ '' to 25,000 characters'')
          @ (code_points ''. ''
             @ (if 0 < ic
                then code_points (''Try using filters, reducing the limit parameter, ''
                          @ ''or requesting specific items to see more details.'')
                else code_points
               ''Try requesting specific items or using filters to reduce the response size.''))"
    by (simp add: truncation_msg_def str_commas_limit code_points_def)
  then show ?thesis
    unfolding sublist_def by blast
qed

lemma notice_suggests_filters:
  "sublist (code_points ''filters'') (truncation_msg n ic)"
proof (cases "0 < ic")
  case True
  then have "truncation_msg n ic =
          ([10, 10, 9888, 65039] @ code_points '' **Response Truncated**'' @ [10]
            @ code_points (''The response was truncated from '' @ str_commas n @ '' to ''
                    @ str_commas CHARACTER_LIMIT @ '' characters. '')
            @ code_points ''Try using '')
          @ code_points ''filters''
          @ code_points ('', reducing the limit parameter, ''
                          @ ''or requesting specific items to see more details.'')"
    by (simp add: truncation_msg_def code_points_def)
  then show ?thesis
    unfolding sublist_def by blast
next
  case False
  then have "truncation_msg n ic =
          ([10, 10, 9888, 65039] @ code_points '' **Response Truncated**'' @ [10]
            @ code_points (''The response was truncated from '' @ str_commas n @ '' to ''
                    @ str_commas CHARACTER_LIMIT @ '' characters. '')
            @ code_points ''Try requesting specific items or using '')
          @ code_points ''filters''
          @ code_points '' to reduce the response size.''"
    by (simp add: truncation_msg_def code_points_def)
  then show ?thesis
    unfolding sublist_def by blast
qed

text \<open>
  Claim C8. A response of at most 25,000 characters is returned unchanged. A longer one
  is returned as its first 25,000 characters followed by the notice, and the notice
  states the original length and the 25,000 it was cut to, both with thousands
  separators, and suggests filters.
\<close>

theorem truncate_response_cap:
  "(length r \<le> 25000 \<longrightarrow> truncate_response r ic = r)
   \<and> (25000 < length r \<longrightarrow>
        truncate_response r ic = take 25000 r @ truncation_msg (length r) ic
        \<and> sublist (code_points (''truncated from '' @ str_commas (length r)
                                  @ '' to 25,000 characters''))
             (truncation_msg (length r) ic)
        \<and> sublist (code_points ''filters'') (truncation_msg (length r) ic))"
  using notice_states_sizes [of "length r" ic] notice_suggests_filters [of "length r" ic]
  by (simp add: truncate_response_def CHARACTER_LIMIT_def)

text \<open>A short response, and one of 25,001 characters.\<close>

theorem truncate_response_cap_witness:
  "truncate_response (code_points ''No shades found.'') 0 = code_points ''No shades found.''
   \<and> truncate_response (replicate 25001 120) 3 =
       replicate 25000 120 @ truncation_msg 25001 3
   \<and> sublist (code_points ''truncated from 25,001 to 25,000 characters'')
        (truncation_msg 25001 3)"
  using truncate_response_cap [of "code_points ''No shades found.''" 0]
        truncate_response_cap [of "replicate 25001 120" 3]
  by (simp add: code_points_def str_commas_ex)


section \<open>Resolving an utterance\<close>

text \<open>
  The substring test of the model is the contiguous-sublist relation.
\<close>

lemma starts_with_prefix: "starts_with xs ys \<longleftrightarrow> prefix xs ys"
  by (induction xs ys rule: starts_with.induct) auto

lemma py_in_sublist: "py_in xs ys \<longleftrightarrow> sublist xs ys"
  by (induction ys) (auto simp: starts_with_prefix sublist_Cons_right)

text \<open>
  A remote that answers \<^verbatim>\<open>/devices\<close> and \<^verbatim>\<open>/rooms\<close> with fixed listings: the tool makes
  the two calls and decides on the listings.
\<close>

lemma listing_calls:
  "api_request ''/devices'' ''GET'' None True 200 (listing_session d r) = (Inr d, [devices_request])"
  "api_request ''/rooms'' ''GET'' None True 201 (listing_session d r) = (Inr r, [rooms_request])"
  by (simp_all add: api_request_def is_valid_def SESSION_TIMEOUT_def listing_session_def
      listing_client_def send_def raise_for_status_def host_text_def devices_request_def
      rooms_request_def)

lemma resolve_device_listing:
  "crestron_resolve_device u p 200 201 (listing_session (JObj [(''devices'', ds)]) r) =
     (case resolve u p ds r of
        Inl e \<Rightarrow> (resolve_failure e, [devices_request, rooms_request])
      | Inr response \<Rightarrow> (response, [devices_request, rooms_request]))"
  by (simp add: crestron_resolve_device_def listing_calls split: sum.splits)

lemma lower_scenario_strings:
  "lower ''Lampadario Soggiorno'' = ''lampadario soggiorno''"
  "lower ''Soggiorno'' = ''soggiorno''"
  "lower ''soggiorno lampadario'' = ''soggiorno lampadario''"
  "lower ''light'' = ''light''"
  "lower ''luce'' = ''luce''"
  by (simp_all add: lower_def lower_char_def)

lemma split_scenario_strings:
  "py_split ''soggiorno lampadario'' = [''soggiorno'', ''lampadario'']"
  "py_split ''lampadario soggiorno'' = [''lampadario'', ''soggiorno'']"
  by (simp_all add: py_split_def is_space_def)

lemma overlap_A: "overlap ''soggiorno lampadario'' ''lampadario soggiorno'' = [''soggiorno'', ''lampadario'']"
  by (simp add: overlap_def split_scenario_strings)

lemma no_name_substring:
  "\<not> py_in ''lampadario soggiorno'' ''soggiorno lampadario''"
  "\<not> py_in ''soggiorno lampadario'' ''lampadario soggiorno''"
  by simp_all

lemma room_bonus_A:
  "room_bonus ''soggiorno lampadario'' p [(KNum 1, ''soggiorno'')] (JInt 1) = Inr (2 / 10)"
  by (simp add: room_bonus_def split: option.splits)

lemma score_A:
  "score_device ''soggiorno lampadario'' p [(KNum 1, ''soggiorno'')]
     (JObj [(''id'', i), (''name'', JStr ''Lampadario Soggiorno''), (''type'', JStr ty),
            (''subType'', st), (''roomId'', JInt 1)]) =
   Inr (4 / 10 + (if py_in (lower ty) ''soggiorno lampadario'' then 3 / 10 else 0))"
  by (simp add: score_device_def lower_scenario_strings no_name_substring room_bonus_A overlap_A)

lemma score_chandelier:
  "score_device ''soggiorno lampadario'' None [(KNum 1, ''soggiorno'')] chandelier = Inr (4 / 10)"
  unfolding chandelier_def score_A by (simp add: lower_scenario_strings)

lemma py_round2_tenths: "py_round2 (2 / 5) = 2 / 5" "py_round2 (3 / 10) = 3 / 10"
  by (simp_all add: py_round2_def py_round_def)

lemma resolve_A:
  "resolve ''soggiorno lampadario'' None (JArr [chandelier]) living_room_listing =
     Inr [(''resolved'', Val (JBool False)),
          (''confidence'', Val (JFloat (4 / 10))),
          (''original_utterance'', Val (JStr ''soggiorno lampadario'')),
          (''clarification_needed'', Val (JBool True)),
          (''candidates'', Val (JArr
             [JObj [(''device_id'', JInt 10), (''name'', JStr ''Lampadario Soggiorno''),
                    (''type'', JStr ''light''), (''subType'', JStr ''Dimmer''),
                    (''room_id'', JInt 1), (''confidence'', JFloat (4 / 10))]])),
          (''message'', Val (JStr
             (''Found 1 possible matches. Please clarify which device you mean ''
              @ ''by providing more specific information (room name, device type, etc.)'')))]"
proof -
  have m: "room_map_of [JObj [(''id'', JInt 1), (''name'', JStr ''Soggiorno'')]] [] =
             Inr [(KNum 1, ''soggiorno'')]"
    by (simp add: lower_scenario_strings)
  have c: "candidate (chandelier, 2 / 5) =
             Inr (JObj [(''device_id'', JInt 10), (''name'', JStr ''Lampadario Soggiorno''),
                    (''type'', JStr ''light''), (''subType'', JStr ''Dimmer''),
                    (''room_id'', JInt 1), (''confidence'', JFloat (4 / 10))])"
    by (simp add: candidate_def chandelier_def py_round2_tenths)
  show ?thesis
    by (simp add: resolve_def living_room_listing_def m lower_scenario_strings score_chandelier
        sort_matches_def decide_def c str_nat.simps)
qed


text \<open>
  Claim C2, as the code has it. For the utterance \<^verbatim>\<open>soggiorno lampadario\<close> a device named
  \<^verbatim>\<open>Lampadario Soggiorno\<close> in room 1, named \<^verbatim>\<open>Soggiorno\<close>, gets no name bonus: neither
  lower-cased string occurs in the other, the words are in the other order. Its score is
  0.2 for the room (by the hint or by the room's name) and 0.2 for the two shared words,
  and 0.3 more only when its type occurs in the utterance: 0.4 or 0.7, below 0.8. With
  the device, of type \<^verbatim>\<open>light\<close>, alone in the listing, the reply is unresolved with
  clarification needed, the device the one candidate, confidence 0.4.
\<close>

theorem soggiorno_lampadario_needs_clarification:
  "score_device ''soggiorno lampadario'' p [(KNum 1, ''soggiorno'')]
     (JObj [(''id'', i), (''name'', JStr ''Lampadario Soggiorno''), (''type'', JStr ty),
            (''subType'', st), (''roomId'', JInt 1)]) =
     Inr (4 / 10 + (if py_in (lower ty) ''soggiorno lampadario'' then 3 / 10 else 0))
   \<and> crestron_resolve_device ''soggiorno lampadario'' None 200 201
         (listing_session (JObj [(''devices'', JArr [chandelier])]) living_room_listing) =
       ([(''resolved'', Val (JBool False)),
         (''confidence'', Val (JFloat (4 / 10))),
         (''original_utterance'', Val (JStr ''soggiorno lampadario'')),
         (''clarification_needed'', Val (JBool True)),
         (''candidates'', Val (JArr
            [JObj [(''device_id'', JInt 10), (''name'', JStr ''Lampadario Soggiorno''),
                   (''type'', JStr ''light''), (''subType'', JStr ''Dimmer''),
                   (''room_id'', JInt 1), (''confidence'', JFloat (4 / 10))]])),
         (''message'', Val (JStr
            (''Found 1 possible matches. Please clarify which device you mean ''
             @ ''by providing more specific information (room name, device type, etc.)'')))],
        [devices_request, rooms_request])"
  unfolding resolve_device_listing resolve_A score_A by simp

text \<open>
  The claim as written fails at its own scenario: no name bonus, a score of 0.4, and a
  reply that is not resolved.
\<close>

theorem soggiorno_lampadario_counterexample:
  "\<not> py_in (lower ''Lampadario Soggiorno'') (lower ''soggiorno lampadario'')
   \<and> \<not> py_in (lower ''soggiorno lampadario'') (lower ''Lampadario Soggiorno'')
   \<and> score_device (lower ''soggiorno lampadario'') None [(KNum 1, ''soggiorno'')] chandelier
       = Inr (4 / 10)
   \<and> map_of (fst (crestron_resolve_device ''soggiorno lampadario'' None 200 201
         (listing_session (JObj [(''devices'', JArr [chandelier])]) living_room_listing)))
         ''resolved'' = Some (Val (JBool False))"
  unfolding resolve_device_listing resolve_A lower_scenario_strings score_chandelier
  by (simp add: no_name_substring)

lemma lower_B:
  "lower ''Lampadario'' = ''lampadario''" "lower ''Applique'' = ''applique''"
  "lower ''Cucina'' = ''cucina''"
  by (simp_all add: lower_def lower_char_def)

lemma split_B:
  "py_split ''luce'' = [''luce'']" "py_split ''light'' = [''light'']"
  "py_split ''lampadario'' = [''lampadario'']" "py_split ''applique'' = [''applique'']"
  by (simp_all add: py_split_def is_space_def)

lemma two_rooms_map_of:
  "room_map_of [JObj [(''id'', JInt 1), (''name'', JStr ''Soggiorno'')],
                JObj [(''id'', JInt 2), (''name'', JStr ''Cucina'')]] [] = Inr two_rooms_map"
  by (simp add: lower_scenario_strings lower_B two_rooms_map_def)

lemma scores_luce:
  "score_device ''luce'' None two_rooms_map lamp_one = Inr 0"
  "score_device ''luce'' None two_rooms_map lamp_two = Inr 0"
  by (simp_all add: score_device_def lamp_one_def lamp_two_def lower_B lower_scenario_strings
      room_bonus_def two_rooms_map_def overlap_def split_B)

lemma scores_light:
  "score_device ''light'' None two_rooms_map lamp_one = Inr (3 / 10)"
  "score_device ''light'' None two_rooms_map lamp_two = Inr (3 / 10)"
  by (simp_all add: score_device_def lamp_one_def lamp_two_def lower_B lower_scenario_strings
      room_bonus_def two_rooms_map_def overlap_def split_B)

lemma resolve_luce:
  "resolve ''luce'' None (JArr [lamp_one, lamp_two]) two_rooms_listing =
     Inr [(''resolved'', Val (JBool False)),
          (''confidence'', Val (JFloat 0)),
          (''original_utterance'', Val (JStr ''luce'')),
          (''message'', Val (JStr ''No devices matched the description'')),
          (''help'', Val (JStr ''Try using crestron_list_devices to see available devices''))]"
  by (simp add: resolve_def two_rooms_listing_def two_rooms_map_of lower_scenario_strings
      scores_luce sort_matches_def decide_def del: room_map_of.simps)

lemma candidates_light:
  "candidate (lamp_one, 3 / 10) =
     Inr (JObj [(''device_id'', JInt 1), (''name'', JStr ''Lampadario''), (''type'', JStr ''light''),
                (''subType'', JStr ''Dimmer''), (''room_id'', JInt 1),
                (''confidence'', JFloat (3 / 10))])"
  "candidate (lamp_two, 3 / 10) =
     Inr (JObj [(''device_id'', JInt 2), (''name'', JStr ''Applique''), (''type'', JStr ''light''),
                (''subType'', JStr ''Switch''), (''room_id'', JInt 2),
                (''confidence'', JFloat (3 / 10))])"
  by (simp_all add: candidate_def lamp_one_def lamp_two_def py_round2_tenths)

lemma resolve_light:
  "resolve ''light'' None (JArr [lamp_one, lamp_two]) two_rooms_listing =
     Inr [(''resolved'', Val (JBool False)),
          (''confidence'', Val (JFloat (3 / 10))),
          (''original_utterance'', Val (JStr ''light'')),
          (''clarification_needed'', Val (JBool True)),
          (''candidates'', Val (JArr
             [JObj [(''device_id'', JInt 1), (''name'', JStr ''Lampadario''),
                    (''type'', JStr ''light''), (''subType'', JStr ''Dimmer''),
                    (''room_id'', JInt 1), (''confidence'', JFloat (3 / 10))],
              JObj [(''device_id'', JInt 2), (''name'', JStr ''Applique''),
                    (''type'', JStr ''light''), (''subType'', JStr ''Switch''),
                    (''room_id'', JInt 2), (''confidence'', JFloat (3 / 10))]])),
          (''message'', Val (JStr
             (''Found 2 possible matches. Please clarify which device you mean ''
              @ ''by providing more specific information (room name, device type, etc.)'')))]"
  by (simp add: resolve_def two_rooms_listing_def two_rooms_map_of lower_scenario_strings
      scores_light sort_matches_def decide_def candidates_light str_nat.simps
      del: room_map_of.simps)

text \<open>
  Claim C7, as the code has it. For the utterance \<^verbatim>\<open>luce\<close> and two devices of type
  \<^verbatim>\<open>light\<close> with no name overlap and no room signal, the type bonus is not given, since
  \<^verbatim>\<open>light\<close> does not occur in \<^verbatim>\<open>luce\<close>: both devices score 0, both are dropped, and the
  reply is unresolved with no matches and confidence 0.0. When the utterance holds the
  type, as \<^verbatim>\<open>light\<close> does, both score exactly 0.3, the top score is below 0.8, and the
  reply is unresolved with clarification needed and both devices as candidates in the
  order of the listing.
\<close>

theorem two_lights_by_type_token:
  "score_device ''luce'' None two_rooms_map lamp_one = Inr 0
   \<and> score_device ''luce'' None two_rooms_map lamp_two = Inr 0
   \<and> crestron_resolve_device ''luce'' None 200 201
         (listing_session two_lights_listing two_rooms_listing) =
       ([(''resolved'', Val (JBool False)),
         (''confidence'', Val (JFloat 0)),
         (''original_utterance'', Val (JStr ''luce'')),
         (''message'', Val (JStr ''No devices matched the description'')),
         (''help'', Val (JStr ''Try using crestron_list_devices to see available devices''))],
        [devices_request, rooms_request])
   \<and> score_device ''light'' None two_rooms_map lamp_one = Inr (3 / 10)
   \<and> score_device ''light'' None two_rooms_map lamp_two = Inr (3 / 10)
   \<and> crestron_resolve_device ''light'' None 200 201
         (listing_session two_lights_listing two_rooms_listing) =
       ([(''resolved'', Val (JBool False)),
         (''confidence'', Val (JFloat (3 / 10))),
         (''original_utterance'', Val (JStr ''light'')),
         (''clarification_needed'', Val (JBool True)),
         (''candidates'', Val (JArr
            [JObj [(''device_id'', JInt 1), (''name'', JStr ''Lampadario''),
                   (''type'', JStr ''light''), (''subType'', JStr ''Dimmer''),
                   (''room_id'', JInt 1), (''confidence'', JFloat (3 / 10))],
             JObj [(''device_id'', JInt 2), (''name'', JStr ''Applique''),
                   (''type'', JStr ''light''), (''subType'', JStr ''Switch''),
                   (''room_id'', JInt 2), (''confidence'', JFloat (3 / 10))]])),
         (''message'', Val (JStr
            (''Found 2 possible matches. Please clarify which device you mean ''
             @ ''by providing more specific information (room name, device type, etc.)'')))],
        [devices_request, rooms_request])"
  unfolding two_lights_listing_def resolve_device_listing resolve_luce resolve_light
  by (simp add: scores_luce scores_light)

text \<open>
  The claim as written fails at its own scenario: \<^verbatim>\<open>light\<close> is not in \<^verbatim>\<open>luce\<close>, both
  scores are 0 and the reply has no candidates.
\<close>

theorem luce_counterexample:
  "\<not> py_in (lower ''light'') (lower ''luce'')
   \<and> score_device (lower ''luce'') None two_rooms_map lamp_one = Inr 0
   \<and> score_device (lower ''luce'') None two_rooms_map lamp_two = Inr 0
   \<and> map_of (fst (crestron_resolve_device ''luce'' None 200 201
         (listing_session two_lights_listing two_rooms_listing))) ''candidates'' = None
   \<and> map_of (fst (crestron_resolve_device ''luce'' None 200 201
         (listing_session two_lights_listing two_rooms_listing))) ''message''
       = Some (Val (JStr ''No devices matched the description''))"
  unfolding two_lights_listing_def resolve_device_listing resolve_luce lower_scenario_strings
  by (simp add: scores_luce)


end
